theory Spec2Isabelle
  imports Main "HOL-Library.Word"
begin

unbundle bit_operations_syntax

text \<open>
  webxr.h is a header: enumerations, three structs, five callback typedefs and twelve
  \<^verbatim>\<open>extern\<close> control functions, with no function body. The enumerations are datatypes with
  their integer values; the structs, typedefs and prototypes are kept as the declarations
  the header writes, so that member order, parameter lists, return types and the default
  argument can be stated and computed with. The code that implements the control
  functions is not part of the sources; the section on the facade models from the
  specification what the properties of callback delivery need of it.
\<close>

section \<open>The enumerations of webxr.h\<close>

text \<open>
  Each \<^verbatim>\<open>enum\<close> of the header is a datatype with one constructor per enumerator,
  in declaration order, and a function giving the integer the header assigns to it.
\<close>

datatype WebXRError =
    WEBXR_ERR_API_UNSUPPORTED
  | WEBXR_ERR_GL_INCAPABLE
  | WEBXR_ERR_SESSION_UNSUPPORTED

fun WebXRError_value :: "WebXRError \<Rightarrow> int" where
  "WebXRError_value WEBXR_ERR_API_UNSUPPORTED = -2"
| "WebXRError_value WEBXR_ERR_GL_INCAPABLE = -3"
| "WebXRError_value WEBXR_ERR_SESSION_UNSUPPORTED = -4"

datatype WebXRHandedness =
    WEBXR_HANDEDNESS_NONE
  | WEBXR_HANDEDNESS_LEFT
  | WEBXR_HANDEDNESS_RIGHT

fun WebXRHandedness_value :: "WebXRHandedness \<Rightarrow> int" where
  "WebXRHandedness_value WEBXR_HANDEDNESS_NONE = -1"
| "WebXRHandedness_value WEBXR_HANDEDNESS_LEFT = 0"
| "WebXRHandedness_value WEBXR_HANDEDNESS_RIGHT = 1"

datatype WebXRTargetRayMode =
    WEBXR_TARGET_RAY_MODE_GAZE
  | WEBXR_TARGET_RAY_MODE_TRACKED_POINTER
  | WEBXR_TARGET_RAY_MODE_SCREEN

fun WebXRTargetRayMode_value :: "WebXRTargetRayMode \<Rightarrow> int" where
  "WebXRTargetRayMode_value WEBXR_TARGET_RAY_MODE_GAZE = 0"
| "WebXRTargetRayMode_value WEBXR_TARGET_RAY_MODE_TRACKED_POINTER = 1"
| "WebXRTargetRayMode_value WEBXR_TARGET_RAY_MODE_SCREEN = 2"

datatype WebXRSessionMode =
    WEBXR_SESSION_MODE_INLINE
  | WEBXR_SESSION_MODE_IMMERSIVE_VR
  | WEBXR_SESSION_MODE_IMMERSIVE_AR

fun WebXRSessionMode_value :: "WebXRSessionMode \<Rightarrow> int" where
  "WebXRSessionMode_value WEBXR_SESSION_MODE_INLINE = 0"
| "WebXRSessionMode_value WEBXR_SESSION_MODE_IMMERSIVE_VR = 1"
| "WebXRSessionMode_value WEBXR_SESSION_MODE_IMMERSIVE_AR = 2"

datatype WebXRSessionFeatures =
    WEBXR_SESSION_FEATURE_LOCAL
  | WEBXR_SESSION_FEATURE_LOCAL_FLOOR
  | WEBXR_SESSION_FEATURE_BOUNDED_FLOOR
  | WEBXR_SESSION_FEATURE_UNBOUNDED
  | WEBXR_SESSION_FEATURE_HIT_TEST

fun WebXRSessionFeatures_value :: "WebXRSessionFeatures \<Rightarrow> int" where
  "WebXRSessionFeatures_value WEBXR_SESSION_FEATURE_LOCAL = 0"
| "WebXRSessionFeatures_value WEBXR_SESSION_FEATURE_LOCAL_FLOOR = 1"
| "WebXRSessionFeatures_value WEBXR_SESSION_FEATURE_BOUNDED_FLOOR = 2"
| "WebXRSessionFeatures_value WEBXR_SESSION_FEATURE_UNBOUNDED = 3"
| "WebXRSessionFeatures_value WEBXR_SESSION_FEATURE_HIT_TEST = 4"

datatype WebXRInputPoseMode =
    WEBXR_INPUT_POSE_GRIP
  | WEBXR_INPUT_POSE_TARGET_RAY

fun WebXRInputPoseMode_value :: "WebXRInputPoseMode \<Rightarrow> int" where
  "WebXRInputPoseMode_value WEBXR_INPUT_POSE_GRIP = 0"
| "WebXRInputPoseMode_value WEBXR_INPUT_POSE_TARGET_RAY = 1"

text \<open>Reading an integer back as an enumerator; an integer no enumerator has gives \<open>None\<close>.\<close>

definition WebXRInputPoseMode_of_int :: "int \<Rightarrow> WebXRInputPoseMode option" where
  "WebXRInputPoseMode_of_int n =
     List.find (\<lambda>m. WebXRInputPoseMode_value m = n)
       [WEBXR_INPUT_POSE_GRIP, WEBXR_INPUT_POSE_TARGET_RAY]"

text \<open>The tags the header declares with \<^verbatim>\<open>enum\<close>; none of them is given a typedef name.\<close>

definition enum_tags :: "string list" where
  "enum_tags =
     [''WebXRError'', ''WebXRHandedness'', ''WebXRTargetRayMode'', ''WebXRSessionMode'',
      ''WebXRSessionFeatures'', ''WebXRInputPoseMode'']"

section \<open>The record types of webxr.h\<close>

text \<open>
  A C type as the header writes it. \<open>CNamed\<close> is a type referred to by its bare name,
  as in \<^verbatim>\<open>WebXRHandedness handedness\<close> or \<^verbatim>\<open>webxr_frame_callback_func frameCallback\<close>;
  \<open>CArray t n\<close> is the declarator \<^verbatim>\<open>t x[n]\<close>.
\<close>

datatype ctype =
    CVoid
  | CInt
  | CFloat
  | CNamed string
  | CPtr ctype
  | CArray ctype nat

datatype struct_decl = Struct (s_name: string) (s_fields: "(string \<times> ctype) list")

definition WebXRRigidTransform_decl :: struct_decl where
  "WebXRRigidTransform_decl = Struct ''WebXRRigidTransform''
     [(''matrix'', CArray CFloat 16),
      (''position'', CArray CFloat 3),
      (''orientation'', CArray CFloat 4)]"

definition WebXRView_decl :: struct_decl where
  "WebXRView_decl = Struct ''WebXRView''
     [(''viewPose'', CNamed ''WebXRRigidTransform''),
      (''projectionMatrix'', CArray CFloat 16),
      (''viewport'', CArray CInt 4)]"

definition WebXRInputSource_decl :: struct_decl where
  "WebXRInputSource_decl = Struct ''WebXRInputSource''
     [(''id'', CInt),
      (''handedness'', CNamed ''WebXRHandedness''),
      (''targetRayMode'', CNamed ''WebXRTargetRayMode'')]"

text \<open>The structs in the order the header declares them.\<close>

definition webxr_structs :: "struct_decl list" where
  "webxr_structs = [WebXRRigidTransform_decl, WebXRView_decl, WebXRInputSource_decl]"

subsection \<open>Layout of a struct on a platform\<close>

text \<open>
  The header fixes the members and their order; the sizes and alignments of \<^verbatim>\<open>float\<close>,
  \<^verbatim>\<open>int\<close>, an enum and a pointer belong to the platform, so they are a parameter.
\<close>

record platform =
  float_size :: nat
  float_align :: nat
  int_size :: nat
  int_align :: nat
  enum_size :: nat
  enum_align :: nat
  ptr_size :: nat
  ptr_align :: nat

text \<open>
  The layout of a complete type: its scalars with the byte offset of each (relative to
  the start of the object), its size and its alignment.
\<close>

record layout =
  scalars :: "(ctype \<times> nat) list"
  size_bytes :: nat
  align_bytes :: nat

type_synonym layout_env = "(string \<times> layout) list"

definition round_up :: "nat \<Rightarrow> nat \<Rightarrow> nat" where
  "round_up a n = (if a = 0 then n else ((n + a - 1) div a) * a)"

definition shift_scalars :: "nat \<Rightarrow> (ctype \<times> nat) list \<Rightarrow> (ctype \<times> nat) list" where
  "shift_scalars d sc = map (\<lambda>(t, off). (t, off + d)) sc"

text \<open>
  \<open>type_layout\<close> lays out a member type. A named type must have been declared before
  (it is looked up in the environment); \<^verbatim>\<open>void\<close> has no layout. The elements of an
  array follow each other without gaps.
\<close>

fun type_layout :: "platform \<Rightarrow> layout_env \<Rightarrow> ctype \<Rightarrow> layout option" where
  "type_layout p env CVoid = None"
| "type_layout p env CInt =
     Some \<lparr>scalars = [(CInt, 0)], size_bytes = int_size p, align_bytes = int_align p\<rparr>"
| "type_layout p env CFloat =
     Some \<lparr>scalars = [(CFloat, 0)], size_bytes = float_size p, align_bytes = float_align p\<rparr>"
| "type_layout p env (CNamed n) = map_of env n"
| "type_layout p env (CPtr t) =
     Some \<lparr>scalars = [(CPtr t, 0)], size_bytes = ptr_size p, align_bytes = ptr_align p\<rparr>"
| "type_layout p env (CArray t n) =
     (case type_layout p env t of
        None \<Rightarrow> None
      | Some l \<Rightarrow>
          Some \<lparr>scalars = concat (map (\<lambda>i. shift_scalars (i * size_bytes l) (scalars l)) [0..<n]),
                size_bytes = n * size_bytes l,
                align_bytes = align_bytes l\<rparr>)"

text \<open>
  Members are placed in declaration order, each at the next offset that is a multiple
  of its alignment. The result lists every member with its offset and size, the
  scalars of the whole struct, the offset after the last member and the largest
  alignment met.
\<close>

fun place_fields ::
  "platform \<Rightarrow> layout_env \<Rightarrow> nat \<Rightarrow> nat \<Rightarrow> (string \<times> ctype) list \<Rightarrow>
     ((string \<times> nat \<times> nat) list \<times> (ctype \<times> nat) list \<times> nat \<times> nat) option" where
  "place_fields p env off al [] = Some ([], [], off, al)"
| "place_fields p env off al ((name, t) # fs) =
     (case type_layout p env t of
        None \<Rightarrow> None
      | Some l \<Rightarrow>
          (let at = round_up (align_bytes l) off in
           case place_fields p env (at + size_bytes l) (max al (align_bytes l)) fs of
             None \<Rightarrow> None
           | Some (members, sc, end_off, al') \<Rightarrow>
               Some ((name, at, size_bytes l) # members,
                     shift_scalars at (scalars l) @ sc, end_off, al')))"

text \<open>The size of a struct is the end of its last member rounded up to its alignment.\<close>

definition struct_layout ::
  "platform \<Rightarrow> layout_env \<Rightarrow> struct_decl \<Rightarrow> ((string \<times> nat \<times> nat) list \<times> layout) option" where
  "struct_layout p env s =
     (case place_fields p env 0 1 (s_fields s) of
        None \<Rightarrow> None
      | Some (members, sc, end_off, al) \<Rightarrow>
          Some (members, \<lparr>scalars = sc, size_bytes = round_up al end_off, align_bytes = al\<rparr>))"

text \<open>
  Before any struct is declared the environment holds the enum tags, each one scalar of
  the platform's enum size.
\<close>

definition enum_env :: "platform \<Rightarrow> layout_env" where
  "enum_env p =
     map (\<lambda>tag. (tag, \<lparr>scalars = [(CNamed tag, 0)], size_bytes = enum_size p,
                        align_bytes = enum_align p\<rparr>)) enum_tags"

text \<open>
  Structs are laid out in declaration order, each seeing the ones before it; a struct
  whose member has no layout is left out of the environment.
\<close>

fun declare_structs :: "platform \<Rightarrow> layout_env \<Rightarrow> struct_decl list \<Rightarrow> layout_env" where
  "declare_structs p env [] = env"
| "declare_structs p env (s # ss) =
     (case struct_layout p env s of
        None \<Rightarrow> declare_structs p env ss
      | Some (members, l) \<Rightarrow> declare_structs p ((s_name s, l) # env) ss)"

definition webxr_layouts :: "platform \<Rightarrow> layout_env" where
  "webxr_layouts p = declare_structs p (enum_env p) webxr_structs"

text \<open>The members of a struct of the header with their offsets and sizes, and its layout.\<close>

definition layout_of ::
  "platform \<Rightarrow> struct_decl \<Rightarrow> ((string \<times> nat \<times> nat) list \<times> layout) option" where
  "layout_of p s = struct_layout p (webxr_layouts p) s"

text \<open>A platform with 4-byte \<^verbatim>\<open>float\<close>, \<^verbatim>\<open>int\<close>, enums and pointers, such as wasm32.\<close>

definition wasm32 :: platform where
  "wasm32 = \<lparr>float_size = 4, float_align = 4, int_size = 4, int_align = 4,
             enum_size = 4, enum_align = 4, ptr_size = 4, ptr_align = 4\<rparr>"

section \<open>The callback types and control functions of webxr.h\<close>

text \<open>
  A parameter has a name, the type its declarator writes and, where the header writes
  one, a default argument (the integer of the enumerator written there). A prototype is a
  return type with the parameters in order: it stands for a callback typedef
  \<^verbatim>\<open>typedef ret (*name)(params)\<close> as well as for a function \<^verbatim>\<open>extern ret name(params)\<close>.
\<close>

datatype param = Param (p_name: string) (p_type: ctype) (p_default: "int option")

datatype prototype = Prototype (sig_name: string) (sig_ret: ctype) (sig_params: "param list")

definition webxr_error_callback_func :: prototype where
  "webxr_error_callback_func = Prototype ''webxr_error_callback_func'' CVoid
     [Param ''userData'' (CPtr CVoid) None,
      Param ''error'' CInt None]"

definition webxr_frame_callback_func :: prototype where
  "webxr_frame_callback_func = Prototype ''webxr_frame_callback_func'' CVoid
     [Param ''userData'' (CPtr CVoid) None,
      Param ''framebuffer_id'' CInt None,
      Param ''time'' CInt None,
      Param ''headPose'' (CPtr (CNamed ''WebXRRigidTransform'')) None,
      Param ''views'' (CArray (CNamed ''WebXRView'') 2) None,
      Param ''viewCount'' CInt None]"

definition webxr_session_callback_func :: prototype where
  "webxr_session_callback_func = Prototype ''webxr_session_callback_func'' CVoid
     [Param ''userData'' (CPtr CVoid) None,
      Param ''mode'' CInt None]"

definition webxr_session_supported_callback_func :: prototype where
  "webxr_session_supported_callback_func =
     Prototype ''webxr_session_supported_callback_func'' CVoid
     [Param ''mode'' CInt None,
      Param ''supported'' CInt None]"

definition webxr_input_callback_func :: prototype where
  "webxr_input_callback_func = Prototype ''webxr_input_callback_func'' CVoid
     [Param ''inputSource'' (CPtr (CNamed ''WebXRInputSource'')) None,
      Param ''userData'' (CPtr CVoid) None]"

text \<open>The callback typedefs in the order the header declares them.\<close>

definition callback_types :: "prototype list" where
  "callback_types =
     [webxr_error_callback_func, webxr_frame_callback_func, webxr_session_callback_func,
      webxr_session_supported_callback_func, webxr_input_callback_func]"

definition webxr_init :: prototype where
  "webxr_init = Prototype ''webxr_init'' CVoid
     [Param ''frameCallback'' (CNamed ''webxr_frame_callback_func'') None,
      Param ''sessionStartCallback'' (CNamed ''webxr_session_callback_func'') None,
      Param ''sessionEndCallback'' (CNamed ''webxr_session_callback_func'') None,
      Param ''errorCallback'' (CNamed ''webxr_error_callback_func'') None,
      Param ''userData'' (CPtr CVoid) None]"

definition webxr_set_session_blur_callback :: prototype where
  "webxr_set_session_blur_callback = Prototype ''webxr_set_session_blur_callback'' CVoid
     [Param ''sessionBlurCallback'' (CNamed ''webxr_session_callback_func'') None,
      Param ''userData'' (CPtr CVoid) None]"

definition webxr_set_session_focus_callback :: prototype where
  "webxr_set_session_focus_callback = Prototype ''webxr_set_session_focus_callback'' CVoid
     [Param ''sessionFocusCallback'' (CNamed ''webxr_session_callback_func'') None,
      Param ''userData'' (CPtr CVoid) None]"

definition webxr_is_session_supported :: prototype where
  "webxr_is_session_supported = Prototype ''webxr_is_session_supported'' CVoid
     [Param ''mode'' (CNamed ''WebXRSessionMode'') None,
      Param ''supportedCallback'' (CNamed ''webxr_session_supported_callback_func'') None]"

definition webxr_request_session :: prototype where
  "webxr_request_session = Prototype ''webxr_request_session'' CVoid
     [Param ''mode'' (CNamed ''WebXRSessionMode'') None,
      Param ''requiredFeatures'' (CNamed ''WebXRSessionFeatures'') None,
      Param ''optionalFeatures'' (CNamed ''WebXRSessionFeatures'') None]"

definition webxr_request_exit :: prototype where
  "webxr_request_exit = Prototype ''webxr_request_exit'' CVoid []"

definition webxr_set_projection_params :: prototype where
  "webxr_set_projection_params = Prototype ''webxr_set_projection_params'' CVoid
     [Param ''near'' CFloat None,
      Param ''far'' CFloat None]"

definition webxr_set_select_callback :: prototype where
  "webxr_set_select_callback = Prototype ''webxr_set_select_callback'' CVoid
     [Param ''callback'' (CNamed ''webxr_input_callback_func'') None,
      Param ''userData'' (CPtr CVoid) None]"

definition webxr_set_select_start_callback :: prototype where
  "webxr_set_select_start_callback = Prototype ''webxr_set_select_start_callback'' CVoid
     [Param ''callback'' (CNamed ''webxr_input_callback_func'') None,
      Param ''userData'' (CPtr CVoid) None]"

definition webxr_set_select_end_callback :: prototype where
  "webxr_set_select_end_callback = Prototype ''webxr_set_select_end_callback'' CVoid
     [Param ''callback'' (CNamed ''webxr_input_callback_func'') None,
      Param ''userData'' (CPtr CVoid) None]"

definition webxr_get_input_sources :: prototype where
  "webxr_get_input_sources = Prototype ''webxr_get_input_sources'' CVoid
     [Param ''outArray'' (CPtr (CNamed ''WebXRInputSource'')) None,
      Param ''max'' CInt None,
      Param ''outCount'' (CPtr CInt) None]"

definition webxr_get_input_pose :: prototype where
  "webxr_get_input_pose = Prototype ''webxr_get_input_pose'' CInt
     [Param ''source'' (CPtr (CNamed ''WebXRInputSource'')) None,
      Param ''outPose'' (CPtr (CNamed ''WebXRRigidTransform'')) None,
      Param ''mode'' (CNamed ''WebXRInputPoseMode'')
        (Some (WebXRInputPoseMode_value WEBXR_INPUT_POSE_GRIP))]"

text \<open>The \<^verbatim>\<open>extern\<close> functions in the order the header declares them.\<close>

definition webxr_functions :: "prototype list" where
  "webxr_functions =
     [webxr_init, webxr_set_session_blur_callback, webxr_set_session_focus_callback,
      webxr_is_session_supported, webxr_request_session, webxr_request_exit,
      webxr_set_projection_params, webxr_set_select_callback,
      webxr_set_select_start_callback, webxr_set_select_end_callback,
      webxr_get_input_sources, webxr_get_input_pose]"

text \<open>The type a prototype's declarator writes for the parameter of a given name.\<close>

definition param_type :: "prototype \<Rightarrow> string \<Rightarrow> ctype option" where
  "param_type d n = map_of (map (\<lambda>p. (p_name p, p_type p)) (sig_params d)) n"

text \<open>
  The type a parameter has. C and C++ adjust a parameter declared as an array to a
  pointer to the element: \<^verbatim>\<open>WebXRView views[2]\<close> in a parameter list declares a
  \<^verbatim>\<open>WebXRView*\<close>, and the bound written in the declarator is not part of the type.
\<close>

fun adjusted :: "ctype \<Rightarrow> ctype" where
  "adjusted (CArray t n) = CPtr t"
| "adjusted t = t"

definition param_adjusted_type :: "prototype \<Rightarrow> string \<Rightarrow> ctype option" where
  "param_adjusted_type d n = map_option adjusted (param_type d n)"

text \<open>A prototype takes caller context when one of its parameters is a \<^verbatim>\<open>void*\<close>.\<close>

definition takes_userData :: "prototype \<Rightarrow> bool" where
  "takes_userData d = (CPtr CVoid \<in> set (map p_type (sig_params d)))"

subsection \<open>Which language accepts the header\<close>

text \<open>
  The header opens with \<^verbatim>\<open>extern "C"\<close> inside \<^verbatim>\<open>#ifdef __cplusplus\<close> and then, outside
  the conditional, with a brace. Each opening token is listed with the macro that
  guards it, if any.
\<close>

datatype language = LangC | LangCPlusPlus

datatype opening_token = ExternC | OpenBrace

definition header_opening :: "(string option \<times> opening_token) list" where
  "header_opening = [(Some ''__cplusplus'', ExternC), (None, OpenBrace)]"

definition predefined :: "language \<Rightarrow> string \<Rightarrow> bool" where
  "predefined lang m = (lang = LangCPlusPlus \<and> m = ''__cplusplus'')"

definition preprocess :: "language \<Rightarrow> (string option \<times> 'a) list \<Rightarrow> 'a list" where
  "preprocess lang ls =
     map snd (filter (\<lambda>(g, t). case g of None \<Rightarrow> True | Some m \<Rightarrow> predefined lang m) ls)"

text \<open>
  Three rules of the languages decide the header. A brace at file scope must belong to a
  linkage specification, which only C++ has. A bare name is a type name when a typedef
  introduces it; C++ also takes the tag of an enum or struct for one, C does not. A
  default argument is C++ only.
\<close>

definition opening_wf :: "language \<Rightarrow> opening_token list \<Rightarrow> bool" where
  "opening_wf lang toks = (toks = [] \<or> (lang = LangCPlusPlus \<and> toks = [ExternC, OpenBrace]))"

text \<open>
  Every struct of the header is declared \<^verbatim>\<open>typedef struct X {...} X\<close>, so its name is both
  a tag and a typedef name; the callback types are typedef names.
\<close>

definition typedef_names :: "string list" where
  "typedef_names = map s_name webxr_structs @ map sig_name callback_types"

definition type_names :: "language \<Rightarrow> string list" where
  "type_names lang =
     typedef_names @ (if lang = LangCPlusPlus then enum_tags @ map s_name webxr_structs else [])"

fun named_in :: "ctype \<Rightarrow> string list" where
  "named_in (CNamed n) = [n]"
| "named_in (CPtr t) = named_in t"
| "named_in (CArray t n) = named_in t"
| "named_in t = []"

definition struct_wf :: "language \<Rightarrow> struct_decl \<Rightarrow> bool" where
  "struct_wf lang s =
     list_all (\<lambda>n. n \<in> set (type_names lang)) (concat (map (\<lambda>(f, t). named_in t) (s_fields s)))"

definition defaults_wf :: "language \<Rightarrow> prototype \<Rightarrow> bool" where
  "defaults_wf lang d = list_all (\<lambda>p. p_default p = None \<or> lang = LangCPlusPlus) (sig_params d)"

definition prototype_wf :: "language \<Rightarrow> prototype \<Rightarrow> bool" where
  "prototype_wf lang d =
     (defaults_wf lang d \<and>
      list_all (\<lambda>n. n \<in> set (type_names lang))
        (concat (map named_in (sig_ret d # map p_type (sig_params d)))))"

definition header_wf :: "language \<Rightarrow> bool" where
  "header_wf lang =
     (opening_wf lang (preprocess lang header_opening) \<and>
      list_all (struct_wf lang) webxr_structs \<and>
      list_all (prototype_wf lang) (callback_types @ webxr_functions))"

subsection \<open>Calls and their arguments\<close>

text \<open>
  The values that cross the interface. A pointer to a struct or to an array of structs is
  given by what it points to, since the pointee is only borrowed for the call; an opaque
  \<^verbatim>\<open>void*\<close> is an address, and a function pointer is an address too. An entry of a view
  array that nobody wrote is \<open>None\<close>. A \<^verbatim>\<open>float\<close> is kept as its 32 bits: nothing
  here computes with it.
\<close>

type_synonym ptr = nat

definition NULL :: ptr where
  "NULL = 0"

type_synonym cfloat = "32 word"

record WebXRRigidTransform =
  matrix :: "cfloat list"
  position :: "cfloat list"
  orientation :: "cfloat list"

record WebXRView =
  viewPose :: WebXRRigidTransform
  projectionMatrix :: "cfloat list"
  viewport :: "int list"

record WebXRInputSource =
  id_field :: int
  handedness :: WebXRHandedness
  targetRayMode :: WebXRTargetRayMode

datatype cval =
    VInt int
  | VPtr ptr
  | VPose WebXRRigidTransform
  | VViews "WebXRView option list"
  | VSource WebXRInputSource

text \<open>
  Binding the arguments of a call to the parameters: arguments are positional, and a
  parameter left without an argument takes its default; a call with too many arguments,
  or with a parameter left that has no default, does not bind.
\<close>

fun bind_args :: "param list \<Rightarrow> cval list \<Rightarrow> cval list option" where
  "bind_args [] [] = Some []"
| "bind_args [] (a # as) = None"
| "bind_args (p # ps) (a # as) = map_option ((#) a) (bind_args ps as)"
| "bind_args (p # ps) [] =
     (case p_default p of
        None \<Rightarrow> None
      | Some d \<Rightarrow> map_option ((#) (VInt d)) (bind_args ps []))"

text \<open>
  The handlers a caller can register, one slot for each callback parameter of a control
  function, and the function and parameter through which each is registered.
\<close>

datatype slot =
    FrameSlot | SessionStartSlot | SessionEndSlot | ErrorSlot
  | BlurSlot | FocusSlot | SupportedSlot
  | SelectSlot | SelectStartSlot | SelectEndSlot

fun slot_registration :: "slot \<Rightarrow> prototype \<times> string" where
  "slot_registration FrameSlot = (webxr_init, ''frameCallback'')"
| "slot_registration SessionStartSlot = (webxr_init, ''sessionStartCallback'')"
| "slot_registration SessionEndSlot = (webxr_init, ''sessionEndCallback'')"
| "slot_registration ErrorSlot = (webxr_init, ''errorCallback'')"
| "slot_registration BlurSlot = (webxr_set_session_blur_callback, ''sessionBlurCallback'')"
| "slot_registration FocusSlot = (webxr_set_session_focus_callback, ''sessionFocusCallback'')"
| "slot_registration SupportedSlot = (webxr_is_session_supported, ''supportedCallback'')"
| "slot_registration SelectSlot = (webxr_set_select_callback, ''callback'')"
| "slot_registration SelectStartSlot = (webxr_set_select_start_callback, ''callback'')"
| "slot_registration SelectEndSlot = (webxr_set_select_end_callback, ''callback'')"

text \<open>The callback typedef of a slot: the declared type of its registration parameter.\<close>

definition slot_type :: "slot \<Rightarrow> prototype option" where
  "slot_type s =
     (case slot_registration s of (f, n) \<Rightarrow>
        (case param_type f n of
           Some (CNamed t) \<Rightarrow> List.find (\<lambda>c. sig_name c = t) callback_types
         | _ \<Rightarrow> None))"

text \<open>One call of a registered handler: the slot, the handler and the argument list.\<close>

datatype invocation = Invocation (inv_slot: slot) (inv_handler: ptr) (inv_args: "cval list")

text \<open>
  The type of a value. A view array is passed as a pointer to its first entry, so it has
  the type \<^verbatim>\<open>WebXRView*\<close> whatever its number of entries.
\<close>

fun has_type :: "cval \<Rightarrow> ctype \<Rightarrow> bool" where
  "has_type (VInt n) t = (t = CInt)"
| "has_type (VPtr a) t = (t = CPtr CVoid)"
| "has_type (VPose x) t = (t = CPtr (CNamed ''WebXRRigidTransform''))"
| "has_type (VViews vs) t = (t = CPtr (CNamed ''WebXRView''))"
| "has_type (VSource x) t = (t = CPtr (CNamed ''WebXRInputSource''))"

text \<open>
  An invocation fits the header when its arguments have the types of the parameters of
  the typedef.
\<close>

definition well_typed :: "invocation \<Rightarrow> bool" where
  "well_typed v =
     (case slot_type (inv_slot v) of
        None \<Rightarrow> False
      | Some c \<Rightarrow>
          list_all2 has_type (inv_args v) (map (\<lambda>p. adjusted (p_type p)) (sig_params c)))"

text \<open>The argument an invocation passes for the parameter of a given name.\<close>

definition arg_of :: "invocation \<Rightarrow> string \<Rightarrow> cval option" where
  "arg_of v n =
     (case slot_type (inv_slot v) of
        None \<Rightarrow> None
      | Some c \<Rightarrow> map_of (zip (map p_name (sig_params c)) (inv_args v)) n)"

text \<open>
  The pose mode a call of \<^verbatim>\<open>webxr_get_input_pose\<close> asks for, once its arguments are bound
  to the parameters of the prototype.
\<close>

definition get_input_pose_mode :: "cval list \<Rightarrow> WebXRInputPoseMode option" where
  "get_input_pose_mode args =
     (case bind_args (sig_params webxr_get_input_pose) args of
        Some [source, outPose, VInt m] \<Rightarrow> WebXRInputPoseMode_of_int m
      | _ \<Rightarrow> None)"

section \<open>The facade behind the header\<close>

text \<open>
  The header only declares the control functions; the code that implements them and
  calls the registered handlers is not among the sources. What the properties of callback
  delivery need of it is modelled here from the specification, as a state machine that
  takes control calls and host events and answers with the invocations it makes.
\<close>

text \<open>
  Modelled from the spec: the session states of the missing implementation, section 3
  ("uninitialized, initialized-idle, session-requested, session-active, session-blurred,
  session-ended").
\<close>

datatype session_state =
    Uninitialized
  | InitializedIdle
  | SessionRequested
  | SessionActive
  | SessionBlurred
  | SessionEnded

text \<open>
  Modelled from the spec: what the missing \<^verbatim>\<open>webxr_init\<close> keeps, section 4.2 ("registers the
  mandatory callback quartet and an opaque caller pointer").
\<close>

record registration =
  frameCallback :: ptr
  sessionStartCallback :: ptr
  sessionEndCallback :: ptr
  errorCallback :: ptr
  userData :: ptr

text \<open>
  Modelled from the spec: the state of the missing implementation. The optional handlers
  are kept with the userData given to their own setter (section 4.2: "each accepts its
  own userData"), \<open>NULL\<close> standing for no handler; the mode is the one of the session
  requested last; the probes are the calls of \<^verbatim>\<open>webxr_is_session_supported\<close> that the host
  has not answered yet.
\<close>

record facade =
  phase :: session_state
  registered :: "registration option"
  blur_handler :: "ptr \<times> ptr"
  focus_handler :: "ptr \<times> ptr"
  select_handler :: "ptr \<times> ptr"
  select_start_handler :: "ptr \<times> ptr"
  select_end_handler :: "ptr \<times> ptr"
  mode :: WebXRSessionMode
  probes :: "(WebXRSessionMode \<times> ptr) list"

text \<open>
  Modelled from the spec: the state of the missing implementation before init, section 3
  (uninitialized; nothing registered, no probe pending).
\<close>

definition facade0 :: facade where
  "facade0 =
     \<lparr>phase = Uninitialized, registered = None,
      blur_handler = (NULL, NULL), focus_handler = (NULL, NULL),
      select_handler = (NULL, NULL), select_start_handler = (NULL, NULL),
      select_end_handler = (NULL, NULL),
      mode = WEBXR_SESSION_MODE_INLINE, probes = []\<rparr>"

text \<open>
  Modelled from the spec: the two properties of the host that the missing \<^verbatim>\<open>webxr_init\<close>
  tests, section 4.2 (no XR API: API_UNSUPPORTED; a graphics context that cannot back an
  immersive layer: GL_INCAPABLE).
\<close>

record host =
  has_xr :: bool
  gl_capable :: bool

text \<open>
  Modelled from the spec: the views of one frame, section 4.4 ("one per eye to render";
  one for inline or mono, two for stereo).
\<close>

datatype eyes = Mono WebXRView | Stereo WebXRView WebXRView

text \<open>
  Modelled from the spec: the control calls that register a handler or lead to a callback
  (sections 4.2 and 4.3), with the arguments the header gives them.
  \<^verbatim>\<open>webxr_set_projection_params\<close>, \<^verbatim>\<open>webxr_get_input_sources\<close> and \<^verbatim>\<open>webxr_get_input_pose\<close> do
  neither and are left out.
\<close>

datatype call =
    Init ptr ptr ptr ptr ptr
  | SetSessionBlurCallback ptr ptr
  | SetSessionFocusCallback ptr ptr
  | IsSessionSupported WebXRSessionMode ptr
  | RequestSession WebXRSessionMode WebXRSessionFeatures WebXRSessionFeatures
  | RequestExit
  | SetSelectCallback ptr ptr
  | SetSelectStartCallback ptr ptr
  | SetSelectEndCallback ptr ptr

text \<open>
  Modelled from the spec: what the host tells the missing implementation (sections 4.3 to
  4.5): it grants or denies the requested session (a denial carries the host's own error
  code), grants a frame with a framebuffer, a time, the head pose and the views, blurs or
  focuses the session, confirms its end, answers the oldest support probe, and raises the
  three phases of the primary action on an input source.
\<close>

datatype host_event =
    SessionGranted
  | SessionDenied int
  | FrameGranted int int WebXRRigidTransform eyes
  | VisibilityBlurred
  | VisibilityFocused
  | SessionExited
  | SupportAnswered bool
  | SelectStarted WebXRInputSource
  | Selected WebXRInputSource
  | SelectEnded WebXRInputSource

text \<open>
  Modelled from the spec: what drives the missing implementation, section 2 ("caller to
  facade: control calls and callback registration"; "callbacks driven by the host's XR
  frame loop and event streams").
\<close>

datatype input = Call call | Host host_event

text \<open>
  Modelled from the spec: the handler that the missing implementation calls for each of
  the four slots registered at init, section 4.2; init registers none for the other slots.
\<close>

fun quartet_handler :: "registration \<Rightarrow> slot \<Rightarrow> ptr" where
  "quartet_handler r FrameSlot = frameCallback r"
| "quartet_handler r SessionStartSlot = sessionStartCallback r"
| "quartet_handler r SessionEndSlot = sessionEndCallback r"
| "quartet_handler r ErrorSlot = errorCallback r"
| "quartet_handler r s = NULL"

text \<open>
  Modelled from the spec: the invocation the missing implementation makes of a handler
  registered at init, section 4.2: the userData of init, then the other arguments.
\<close>

definition invoke_quartet :: "registration \<Rightarrow> slot \<Rightarrow> cval list \<Rightarrow> invocation" where
  "invoke_quartet r s args = Invocation s (quartet_handler r s) (VPtr (userData r) # args)"

text \<open>
  Modelled from the spec: how the missing implementation calls an optional handler,
  sections 4.2 and 4.5: with the userData of its own registration, and not at all when
  none is registered ("a handler absence (null registration) silently skips that phase").
\<close>

definition invoke_optional :: "slot \<Rightarrow> ptr \<times> ptr \<Rightarrow> (ptr \<Rightarrow> cval list) \<Rightarrow> invocation list" where
  "invoke_optional s h args = (if fst h = NULL then [] else [Invocation s (fst h) (args (snd h))])"

text \<open>
  Modelled from the spec: the view array that the missing implementation passes to the
  frame callback, section 4.4: storage of two entries, of which one is written per eye
  and the rest is left as it was ("entries beyond it are undefined").
\<close>

fun view_array :: "eyes \<Rightarrow> WebXRView option list" where
  "view_array (Mono v) = [Some v, None]"
| "view_array (Stereo l r) = [Some l, Some r]"

text \<open>
  Modelled from the spec: the view count the missing implementation passes to the frame
  callback, section 4.4 ("1 for inline/mono, 2 for stereo").
\<close>

fun view_count :: "eyes \<Rightarrow> int" where
  "view_count (Mono v) = 1"
| "view_count (Stereo l r) = 2"

text \<open>
  Modelled from the spec: when the missing implementation has a session running, section
  3 (session-active or session-blurred).
\<close>

definition in_session :: "facade \<Rightarrow> bool" where
  "in_session f = (phase f = SessionActive \<or> phase f = SessionBlurred)"

text \<open>
  Modelled from the spec: the missing control functions, sections 4.2, 4.3 and 8. Init
  registers once (a later call is ignored) and reports an unusable host through the error
  callback; every other call before a successful init fails silently; a setter replaces
  the handler; a probe waits for the host's answer; a session request is taken when no
  session is requested or running and is rejected through the error callback otherwise;
  a request to exit calls nothing by itself (the end is the host's to confirm).
\<close>

fun facade_call :: "host \<Rightarrow> facade \<Rightarrow> call \<Rightarrow> facade \<times> invocation list" where
  "facade_call h f (Init fc sc ec erc ud) =
     (if registered f \<noteq> None then (f, [])
      else
        (let r = \<lparr>frameCallback = fc, sessionStartCallback = sc, sessionEndCallback = ec,
                  errorCallback = erc, userData = ud\<rparr>;
             f' = f\<lparr>registered := Some r\<rparr>
         in if \<not> has_xr h then
              (f', [invoke_quartet r ErrorSlot [VInt (WebXRError_value WEBXR_ERR_API_UNSUPPORTED)]])
            else if \<not> gl_capable h then
              (f', [invoke_quartet r ErrorSlot [VInt (WebXRError_value WEBXR_ERR_GL_INCAPABLE)]])
            else (f'\<lparr>phase := InitializedIdle\<rparr>, [])))"
| "facade_call h f (SetSessionBlurCallback cb ud) =
     (if phase f = Uninitialized then (f, []) else (f\<lparr>blur_handler := (cb, ud)\<rparr>, []))"
| "facade_call h f (SetSessionFocusCallback cb ud) =
     (if phase f = Uninitialized then (f, []) else (f\<lparr>focus_handler := (cb, ud)\<rparr>, []))"
| "facade_call h f (IsSessionSupported m cb) =
     (if phase f = Uninitialized then (f, []) else (f\<lparr>probes := probes f @ [(m, cb)]\<rparr>, []))"
| "facade_call h f (RequestSession m required optional) =
     (case registered f of
        None \<Rightarrow> (f, [])
      | Some r \<Rightarrow>
          if phase f = Uninitialized then (f, [])
          else if phase f = InitializedIdle \<or> phase f = SessionEnded then
            (f\<lparr>phase := SessionRequested, mode := m\<rparr>, [])
          else
            (f, [invoke_quartet r ErrorSlot
                   [VInt (WebXRError_value WEBXR_ERR_SESSION_UNSUPPORTED)]]))"
| "facade_call h f RequestExit = (f, [])"
| "facade_call h f (SetSelectCallback cb ud) =
     (if phase f = Uninitialized then (f, []) else (f\<lparr>select_handler := (cb, ud)\<rparr>, []))"
| "facade_call h f (SetSelectStartCallback cb ud) =
     (if phase f = Uninitialized then (f, []) else (f\<lparr>select_start_handler := (cb, ud)\<rparr>, []))"
| "facade_call h f (SetSelectEndCallback cb ud) =
     (if phase f = Uninitialized then (f, []) else (f\<lparr>select_end_handler := (cb, ud)\<rparr>, []))"

text \<open>
  Modelled from the spec: how the missing implementation answers the host, sections 4.3
  to 4.5 and 5. A granted request starts the session and calls the session-start
  callback with the mode; a denied one is reported through the error callback
  (SESSION_UNSUPPORTED for an immersive mode, the host's code otherwise); a frame is
  passed to the frame callback while a session runs and dropped otherwise; blur and focus
  switch between active and blurred and call the handler registered for them; the
  confirmed end calls the session-end callback; an answer to a probe calls that probe's
  handler with the mode asked and 1 or 0; a phase of the primary action calls the handler
  registered for it with the source.
\<close>

fun host_step :: "registration \<Rightarrow> facade \<Rightarrow> host_event \<Rightarrow> facade \<times> invocation list" where
  "host_step r f SessionGranted =
     (if phase f = SessionRequested then
        (f\<lparr>phase := SessionActive\<rparr>,
         [invoke_quartet r SessionStartSlot [VInt (WebXRSessionMode_value (mode f))]])
      else (f, []))"
| "host_step r f (SessionDenied code) =
     (if phase f = SessionRequested then
        (f\<lparr>phase := InitializedIdle\<rparr>,
         [invoke_quartet r ErrorSlot
            [VInt (if mode f = WEBXR_SESSION_MODE_INLINE then code
                   else WebXRError_value WEBXR_ERR_SESSION_UNSUPPORTED)]])
      else (f, []))"
| "host_step r f (FrameGranted fb t pose e) =
     (if in_session f then
        (f, [invoke_quartet r FrameSlot
               [VInt fb, VInt t, VPose pose, VViews (view_array e), VInt (view_count e)]])
      else (f, []))"
| "host_step r f VisibilityBlurred =
     (if phase f = SessionActive then
        (f\<lparr>phase := SessionBlurred\<rparr>,
         invoke_optional BlurSlot (blur_handler f)
           (\<lambda>ud. [VPtr ud, VInt (WebXRSessionMode_value (mode f))]))
      else (f, []))"
| "host_step r f VisibilityFocused =
     (if phase f = SessionBlurred then
        (f\<lparr>phase := SessionActive\<rparr>,
         invoke_optional FocusSlot (focus_handler f)
           (\<lambda>ud. [VPtr ud, VInt (WebXRSessionMode_value (mode f))]))
      else (f, []))"
| "host_step r f SessionExited =
     (if in_session f then
        (f\<lparr>phase := SessionEnded\<rparr>,
         [invoke_quartet r SessionEndSlot [VInt (WebXRSessionMode_value (mode f))]])
      else (f, []))"
| "host_step r f (SupportAnswered b) =
     (case probes f of
        [] \<Rightarrow> (f, [])
      | (m, cb) # rest \<Rightarrow>
          (f\<lparr>probes := rest\<rparr>,
           if cb = NULL then []
           else [Invocation SupportedSlot cb
                   [VInt (WebXRSessionMode_value m), VInt (if b then 1 else 0)]]))"
| "host_step r f (SelectStarted src) =
     (if in_session f then
        (f, invoke_optional SelectStartSlot (select_start_handler f) (\<lambda>ud. [VSource src, VPtr ud]))
      else (f, []))"
| "host_step r f (Selected src) =
     (if in_session f then
        (f, invoke_optional SelectSlot (select_handler f) (\<lambda>ud. [VSource src, VPtr ud]))
      else (f, []))"
| "host_step r f (SelectEnded src) =
     (if in_session f then
        (f, invoke_optional SelectEndSlot (select_end_handler f) (\<lambda>ud. [VSource src, VPtr ud]))
      else (f, []))"

text \<open>
  Modelled from the spec: one step of the missing implementation. Before init has
  registered the callbacks it has nothing to call, so host events pass unanswered.
\<close>

fun step :: "host \<Rightarrow> facade \<Rightarrow> input \<Rightarrow> facade \<times> invocation list" where
  "step h f (Call c) = facade_call h f c"
| "step h f (Host e) =
     (case registered f of None \<Rightarrow> (f, []) | Some r \<Rightarrow> host_step r f e)"

text \<open>
  Modelled from the spec: a run of the missing implementation from a state over a
  sequence of calls and host events, giving the invocations it makes, in order.
\<close>

fun run :: "host \<Rightarrow> facade \<Rightarrow> input list \<Rightarrow> invocation list" where
  "run h f [] = []"
| "run h f (i # ins) = (case step h f i of (f', out) \<Rightarrow> out @ run h f' ins)"

text \<open>The userData given to the first call of init in a sequence of inputs, if there is one.\<close>

fun first_init_userData :: "input list \<Rightarrow> ptr option" where
  "first_init_userData [] = None"
| "first_init_userData (Call (Init fc sc ec erc ud) # ins) = Some ud"
| "first_init_userData (i # ins) = first_init_userData ins"

text \<open>
  The slot of the most recent session-start or session-end invocation in a trace, if
  there is one.
\<close>

fun last_lifecycle :: "invocation list \<Rightarrow> slot option" where
  "last_lifecycle [] = None"
| "last_lifecycle (v # vs) =
     (case last_lifecycle vs of
        Some s \<Rightarrow> Some s
      | None \<Rightarrow>
          if inv_slot v = SessionStartSlot \<or> inv_slot v = SessionEndSlot
          then Some (inv_slot v) else None)"

text \<open>A host with an XR API and a graphics context that can render to it.\<close>

definition capable_host :: host where
  "capable_host = \<lparr>has_xr = True, gl_capable = True\<rparr>"

subsection \<open>Reading a trace of invocations\<close>

text \<open>The slots of the four handlers that init registers.\<close>

definition is_quartet :: "slot \<Rightarrow> bool" where
  "is_quartet s = (s = FrameSlot \<or> s = SessionStartSlot \<or> s = SessionEndSlot \<or> s = ErrorSlot)"

text \<open>
  The userData of init as seen from a state with inputs still to come: the registered
  one if init has been called, else the one of the first init among the inputs.
\<close>

definition userData_in_force :: "facade \<Rightarrow> input list \<Rightarrow> ptr option" where
  "userData_in_force f ins =
     (case registered f of Some r \<Rightarrow> Some (userData r) | None \<Rightarrow> first_init_userData ins)"

text \<open>
  Reading a trace from the left while keeping whether a session is open: a session-start
  invocation opens one, a session-end invocation closes it. \<open>open_after b vs\<close> is the
  answer after \<open>vs\<close> when it was \<open>b\<close> before; \<open>bracketed b vs\<close> says that every
  session-start comes with no session open and every frame and session-end with one open.
\<close>

fun open_after :: "bool \<Rightarrow> invocation list \<Rightarrow> bool" where
  "open_after b [] = b"
| "open_after b (v # vs) =
     open_after (if inv_slot v = SessionStartSlot then True
                 else if inv_slot v = SessionEndSlot then False else b) vs"

fun bracketed :: "bool \<Rightarrow> invocation list \<Rightarrow> bool" where
  "bracketed b [] = True"
| "bracketed b (v # vs) =
     ((if inv_slot v = SessionStartSlot then \<not> b
       else if inv_slot v = SessionEndSlot \<or> inv_slot v = FrameSlot then b
       else True)
      \<and> bracketed (open_after b [v]) vs)"

text \<open>A state is sound when it has left \<open>Uninitialized\<close> only after init registered.\<close>

definition registered_before_use :: "facade \<Rightarrow> bool" where
  "registered_before_use f = (registered f = None \<longrightarrow> phase f = Uninitialized)"

text \<open>A pose and a view to run the facade on.\<close>

definition example_pose :: WebXRRigidTransform where
  "example_pose = \<lparr>matrix = replicate 16 0, position = replicate 3 0, orientation = replicate 4 0\<rparr>"

definition example_view :: WebXRView where
  "example_view =
     \<lparr>viewPose = example_pose, projectionMatrix = replicate 16 0, viewport = [0, 0, 640, 480]\<rparr>"

section \<open>Properties of the declarations\<close>

lemmas prototype_defs =
  webxr_error_callback_func_def webxr_frame_callback_func_def webxr_session_callback_func_def
  webxr_session_supported_callback_func_def webxr_input_callback_func_def
  webxr_init_def webxr_set_session_blur_callback_def webxr_set_session_focus_callback_def
  webxr_is_session_supported_def webxr_request_session_def webxr_request_exit_def
  webxr_set_projection_params_def webxr_set_select_callback_def
  webxr_set_select_start_callback_def webxr_set_select_end_callback_def
  webxr_get_input_sources_def webxr_get_input_pose_def

lemmas struct_defs = WebXRRigidTransform_decl_def WebXRView_decl_def WebXRInputSource_decl_def

lemma slot_type_simps:
  "slot_type FrameSlot = Some webxr_frame_callback_func"
  "slot_type SessionStartSlot = Some webxr_session_callback_func"
  "slot_type SessionEndSlot = Some webxr_session_callback_func"
  "slot_type ErrorSlot = Some webxr_error_callback_func"
  "slot_type BlurSlot = Some webxr_session_callback_func"
  "slot_type FocusSlot = Some webxr_session_callback_func"
  "slot_type SupportedSlot = Some webxr_session_supported_callback_func"
  "slot_type SelectSlot = Some webxr_input_callback_func"
  "slot_type SelectStartSlot = Some webxr_input_callback_func"
  "slot_type SelectEndSlot = Some webxr_input_callback_func"
  by (simp_all add: slot_type_def param_type_def callback_types_def prototype_defs)

subsection \<open>Enumeration values\<close>

text \<open>
  C1. Every enumerator has exactly the integer the specification's table gives:
  API_UNSUPPORTED = -2, GL_INCAPABLE = -3, SESSION_UNSUPPORTED = -4; NONE = -1, LEFT = 0,
  RIGHT = 1; GAZE = 0, TRACKED_POINTER = 1, SCREEN = 2; INLINE = 0, IMMERSIVE_VR = 1,
  IMMERSIVE_AR = 2; LOCAL = 0, LOCAL_FLOOR = 1, BOUNDED_FLOOR = 2, UNBOUNDED = 3,
  HIT_TEST = 4; GRIP = 0, TARGET_RAY = 1.
\<close>

theorem enum_values_match_table:
  "map WebXRError_value
     [WEBXR_ERR_API_UNSUPPORTED, WEBXR_ERR_GL_INCAPABLE, WEBXR_ERR_SESSION_UNSUPPORTED]
     = [-2, -3, -4]
   \<and> map WebXRHandedness_value
     [WEBXR_HANDEDNESS_NONE, WEBXR_HANDEDNESS_LEFT, WEBXR_HANDEDNESS_RIGHT]
     = [-1, 0, 1]
   \<and> map WebXRTargetRayMode_value
     [WEBXR_TARGET_RAY_MODE_GAZE, WEBXR_TARGET_RAY_MODE_TRACKED_POINTER,
      WEBXR_TARGET_RAY_MODE_SCREEN]
     = [0, 1, 2]
   \<and> map WebXRSessionMode_value
     [WEBXR_SESSION_MODE_INLINE, WEBXR_SESSION_MODE_IMMERSIVE_VR,
      WEBXR_SESSION_MODE_IMMERSIVE_AR]
     = [0, 1, 2]
   \<and> map WebXRSessionFeatures_value
     [WEBXR_SESSION_FEATURE_LOCAL, WEBXR_SESSION_FEATURE_LOCAL_FLOOR,
      WEBXR_SESSION_FEATURE_BOUNDED_FLOOR, WEBXR_SESSION_FEATURE_UNBOUNDED,
      WEBXR_SESSION_FEATURE_HIT_TEST]
     = [0, 1, 2, 3, 4]
   \<and> map WebXRInputPoseMode_value [WEBXR_INPUT_POSE_GRIP, WEBXR_INPUT_POSE_TARGET_RAY]
     = [0, 1]"
  by simp

subsection \<open>Return types of the control functions\<close>

text \<open>
  C2. Every control function of the header returns \<^verbatim>\<open>void\<close>, except \<^verbatim>\<open>webxr_get_input_pose\<close>,
  which returns an \<^verbatim>\<open>int\<close> (its ok-flag); no control function returns the error enum.
\<close>

theorem control_functions_return_void:
  "map sig_name [d \<leftarrow> webxr_functions. sig_ret d = CVoid] =
     [''webxr_init'', ''webxr_set_session_blur_callback'', ''webxr_set_session_focus_callback'',
      ''webxr_is_session_supported'', ''webxr_request_session'', ''webxr_request_exit'',
      ''webxr_set_projection_params'', ''webxr_set_select_callback'',
      ''webxr_set_select_start_callback'', ''webxr_set_select_end_callback'',
      ''webxr_get_input_sources'']
   \<and> map (\<lambda>d. (sig_name d, sig_ret d)) [d \<leftarrow> webxr_functions. sig_ret d \<noteq> CVoid] =
     [(''webxr_get_input_pose'', CInt)]
   \<and> CNamed ''WebXRError'' \<notin> set (map sig_ret webxr_functions)"
  by (simp add: webxr_functions_def prototype_defs)

subsection \<open>Layout of the records\<close>

lemma float_array_layout:
  "type_layout p env (CArray CFloat n) =
     Some \<lparr>scalars = map (\<lambda>i. (CFloat, i * float_size p)) [0..<n],
           size_bytes = n * float_size p, align_bytes = float_align p\<rparr>"
  by (simp add: shift_scalars_def)

lemma int_array_layout:
  "type_layout p env (CArray CInt n) =
     Some \<lparr>scalars = map (\<lambda>i. (CInt, i * int_size p)) [0..<n],
           size_bytes = n * int_size p, align_bytes = int_align p\<rparr>"
  by (simp add: shift_scalars_def)

lemma struct_layout_rigid_transform:
  assumes "float_size p = 4" "float_align p = 4"
  shows "struct_layout p env WebXRRigidTransform_decl =
     Some ([(''matrix'', 0, 64), (''position'', 64, 12), (''orientation'', 76, 16)],
           \<lparr>scalars = map (\<lambda>i. (CFloat, 4 * i)) [0..<23], size_bytes = 92, align_bytes = 4\<rparr>)"
  using assms
  apply (simp add: struct_layout_def WebXRRigidTransform_decl_def round_up_def
      shift_scalars_def float_array_layout del: type_layout.simps)
  apply (simp add: upt_conv_Cons)
  done

lemma struct_layout_view:
  assumes "float_size p = 4" "float_align p = 4" "int_size p = 4" "int_align p = 4"
    and "map_of env ''WebXRRigidTransform'' =
       Some \<lparr>scalars = map (\<lambda>i. (CFloat, 4 * i)) [0..<23], size_bytes = 92, align_bytes = 4\<rparr>"
  shows "struct_layout p env WebXRView_decl =
     Some ([(''viewPose'', 0, 92), (''projectionMatrix'', 92, 64), (''viewport'', 156, 16)],
           \<lparr>scalars = map (\<lambda>i. (CFloat, 4 * i)) [0..<39] @ map (\<lambda>i. (CInt, 156 + 4 * i)) [0..<4],
            size_bytes = 172, align_bytes = 4\<rparr>)"
  using assms
  by (simp add: struct_layout_def WebXRView_decl_def round_up_def Let_def
      shift_scalars_def float_array_layout int_array_layout upt_conv_Cons
      del: type_layout.simps(6))

lemma map_of_declare_structs:
  "n \<notin> set (map s_name ss) \<Longrightarrow> map_of (declare_structs p env ss) n = map_of env n"
  by (induction ss arbitrary: env) (auto split: option.splits)

lemma webxr_layouts_rigid_transform:
  assumes "float_size p = 4" "float_align p = 4"
  shows "map_of (webxr_layouts p) ''WebXRRigidTransform'' =
       Some \<lparr>scalars = map (\<lambda>i. (CFloat, 4 * i)) [0..<23], size_bytes = 92, align_bytes = 4\<rparr>"
proof -
  let ?l = "\<lparr>scalars = map (\<lambda>i. (CFloat, 4 * i)) [0..<23], size_bytes = 92, align_bytes = 4\<rparr>"
  have name: "s_name WebXRRigidTransform_decl = ''WebXRRigidTransform''"
    by (simp add: WebXRRigidTransform_decl_def)
  have first: "declare_structs p env (WebXRRigidTransform_decl # ss) =
      declare_structs p ((''WebXRRigidTransform'', ?l) # env) ss" for env ss
    by (simp add: struct_layout_rigid_transform [OF assms] name)
  have later: "''WebXRRigidTransform'' \<notin> set (map s_name [WebXRView_decl, WebXRInputSource_decl])"
    by (simp add: WebXRView_decl_def WebXRInputSource_decl_def)
  show ?thesis
    unfolding webxr_layouts_def webxr_structs_def first
    by (simp only: map_of_declare_structs [OF later]) simp
qed

text \<open>
  C3. WebXRRigidTransform is exactly 23 floats, matrix[16], position[3], orientation[4] in
  that order and without gaps; where a float is naturally aligned on 4 bytes (size and
  alignment 4) its size is 92 bytes.
\<close>

theorem rigid_transform_layout:
  assumes "float_size p = 4" and "float_align p = 4"
  shows "layout_of p WebXRRigidTransform_decl =
     Some ([(''matrix'', 0, 64), (''position'', 64, 12), (''orientation'', 76, 16)],
           \<lparr>scalars = map (\<lambda>i. (CFloat, 4 * i)) [0..<23], size_bytes = 92, align_bytes = 4\<rparr>)"
  unfolding layout_of_def by (rule struct_layout_rigid_transform [OF assms])

theorem rigid_transform_layout_witness:
  "float_size wasm32 = 4 \<and> float_align wasm32 = 4 \<and>
   layout_of wasm32 WebXRRigidTransform_decl =
     Some ([(''matrix'', 0, 64), (''position'', 64, 12), (''orientation'', 76, 16)],
           \<lparr>scalars = map (\<lambda>i. (CFloat, 4 * i)) [0..<23], size_bytes = 92, align_bytes = 4\<rparr>)"
  using rigid_transform_layout [of wasm32] by (simp add: wasm32_def)

text \<open>
  C4. WebXRView is a WebXRRigidTransform (92 bytes) followed by the 16 floats of the
  projection matrix (64 bytes) followed by the 4 ints of the viewport (16 bytes); where
  float and int have 4 bytes and 4-byte alignment its size is 172 bytes.
\<close>

theorem view_layout:
  assumes "float_size p = 4" and "float_align p = 4" and "int_size p = 4" and "int_align p = 4"
  shows "layout_of p WebXRView_decl =
     Some ([(''viewPose'', 0, 92), (''projectionMatrix'', 92, 64), (''viewport'', 156, 16)],
           \<lparr>scalars = map (\<lambda>i. (CFloat, 4 * i)) [0..<39] @ map (\<lambda>i. (CInt, 156 + 4 * i)) [0..<4],
            size_bytes = 172, align_bytes = 4\<rparr>)"
  unfolding layout_of_def
  by (rule struct_layout_view [OF assms webxr_layouts_rigid_transform [OF assms(1,2)]])

theorem view_layout_witness:
  "float_size wasm32 = 4 \<and> float_align wasm32 = 4 \<and> int_size wasm32 = 4 \<and> int_align wasm32 = 4 \<and>
   layout_of wasm32 WebXRView_decl =
     Some ([(''viewPose'', 0, 92), (''projectionMatrix'', 92, 64), (''viewport'', 156, 16)],
           \<lparr>scalars = map (\<lambda>i. (CFloat, 4 * i)) [0..<39] @ map (\<lambda>i. (CInt, 156 + 4 * i)) [0..<4],
            size_bytes = 172, align_bytes = 4\<rparr>)"
  using view_layout [of wasm32] by (simp add: wasm32_def)

subsection \<open>Session requests\<close>

text \<open>
  C7. \<^verbatim>\<open>webxr_request_session\<close> takes mode, requiredFeatures and optionalFeatures in that
  order; each feature parameter has the enum type WebXRSessionFeatures itself, so it holds
  one tag: it is no pointer or array, and the enumerators are no bit flags (LOCAL_FLOOR
  and BOUNDED_FLOOR together would read as UNBOUNDED).
\<close>

theorem request_session_single_feature_tags:
  "map (\<lambda>p. (p_name p, p_type p)) (sig_params webxr_request_session) =
     [(''mode'', CNamed ''WebXRSessionMode''),
      (''requiredFeatures'', CNamed ''WebXRSessionFeatures''),
      (''optionalFeatures'', CNamed ''WebXRSessionFeatures'')]
   \<and> ''WebXRSessionFeatures'' \<in> set enum_tags
   \<and> ''WebXRSessionFeatures'' \<notin> set typedef_names
   \<and> WebXRSessionFeatures_value WEBXR_SESSION_FEATURE_LOCAL_FLOOR
       OR WebXRSessionFeatures_value WEBXR_SESSION_FEATURE_BOUNDED_FLOOR
       = WebXRSessionFeatures_value WEBXR_SESSION_FEATURE_UNBOUNDED"
  by (simp add: webxr_request_session_def enum_tags_def typedef_names_def webxr_structs_def
      callback_types_def prototype_defs struct_defs)

subsection \<open>The session-support callback\<close>

lemma supported_invocation_args:
  assumes "well_typed v" and "inv_slot v = SupportedSlot"
  shows "\<exists>m s. inv_args v = [VInt m, VInt s]"
proof -
  from assms have "list_all2 has_type (inv_args v) [CInt, CInt]"
    by (simp add: well_typed_def slot_type_simps webxr_session_supported_callback_func_def)
  then show ?thesis
    by (auto simp: list_all2_Cons2 elim!: has_type.elims)
qed

text \<open>
  C9. The session-support callback type takes the mode and the supported flag only; it is
  the one callback type of the header without a userData parameter, and
  \<^verbatim>\<open>webxr_is_session_supported\<close> takes no userData either, so no invocation that fits the
  type passes a caller pointer to the handler.
\<close>

theorem supported_callback_has_no_userData:
  "map (\<lambda>p. (p_name p, p_type p)) (sig_params webxr_session_supported_callback_func) =
     [(''mode'', CInt), (''supported'', CInt)]
   \<and> [c \<leftarrow> callback_types. \<not> takes_userData c] = [webxr_session_supported_callback_func]
   \<and> \<not> takes_userData webxr_is_session_supported
   \<and> slot_type SupportedSlot = Some webxr_session_supported_callback_func
   \<and> (well_typed v \<and> inv_slot v = SupportedSlot \<longrightarrow> VPtr a \<notin> set (inv_args v))"
proof -
  have "VPtr a \<notin> set (inv_args v)" if "well_typed v" "inv_slot v = SupportedSlot"
    using supported_invocation_args [OF that] by auto
  then show ?thesis
    by (simp add: slot_type_simps)
       (simp add: callback_types_def takes_userData_def prototype_defs)
qed

theorem supported_callback_has_no_userData_witness:
  "well_typed (Invocation SupportedSlot 9 [VInt 1, VInt 1])
   \<and> inv_slot (Invocation SupportedSlot 9 [VInt 1, VInt 1]) = SupportedSlot
   \<and> VPtr 7 \<notin> set (inv_args (Invocation SupportedSlot 9 [VInt 1, VInt 1]))"
  using supported_callback_has_no_userData [of "Invocation SupportedSlot 9 [VInt 1, VInt 1]" 7]
  by (simp add: well_typed_def slot_type_simps webxr_session_supported_callback_func_def)

subsection \<open>The default argument of the pose query\<close>

text \<open>
  C10. \<^verbatim>\<open>webxr_get_input_pose\<close> declares the default argument WEBXR_INPUT_POSE_GRIP for
  mode, so a call that leaves mode out asks for the grip pose (and one that gives a mode
  asks for that mode); it is the only declaration with a default argument, which C does
  not have, and the header is accepted as C++ and not as C.
\<close>

theorem get_input_pose_default_mode:
  "get_input_pose_mode [source, outPose] = Some WEBXR_INPUT_POSE_GRIP
   \<and> get_input_pose_mode [source, outPose, VInt (WebXRInputPoseMode_value m)] = Some m
   \<and> [d \<leftarrow> callback_types @ webxr_functions. \<not> defaults_wf LangC d] = [webxr_get_input_pose]
   \<and> header_wf LangCPlusPlus
   \<and> \<not> header_wf LangC"
proof -
  have "get_input_pose_mode [source, outPose, VInt (WebXRInputPoseMode_value m)] = Some m"
    by (cases m) (simp_all add: get_input_pose_mode_def webxr_get_input_pose_def
        WebXRInputPoseMode_of_int_def)
  moreover have "get_input_pose_mode [source, outPose] = Some WEBXR_INPUT_POSE_GRIP"
    by (simp add: get_input_pose_mode_def webxr_get_input_pose_def WebXRInputPoseMode_of_int_def)
  moreover have "[d \<leftarrow> callback_types @ webxr_functions. \<not> defaults_wf LangC d] = [webxr_get_input_pose]"
    by (simp add: callback_types_def webxr_functions_def defaults_wf_def prototype_defs)
  moreover have "header_wf LangCPlusPlus"
    by (simp add: header_wf_def opening_wf_def preprocess_def header_opening_def predefined_def
        struct_wf_def prototype_wf_def defaults_wf_def type_names_def typedef_names_def
        enum_tags_def webxr_structs_def callback_types_def webxr_functions_def
        prototype_defs struct_defs)
  moreover have "\<not> header_wf LangC"
    by (simp add: header_wf_def opening_wf_def preprocess_def header_opening_def predefined_def)
  ultimately show ?thesis by simp
qed

section \<open>Properties of callback delivery\<close>

lemma run_invocation_from_step:
  "v \<in> set (run h f ins) \<Longrightarrow> \<exists>f' i. v \<in> set (snd (step h f' i))"
proof (induction ins arbitrary: f)
  case Nil
  then show ?case by simp
next
  case (Cons i ins)
  obtain f' out where s: "step h f i = (f', out)" by (cases "step h f i")
  with Cons.prems have "v \<in> set out \<or> v \<in> set (run h f' ins)" by simp
  then show ?case
  proof
    assume "v \<in> set out"
    with s have "v \<in> set (snd (step h f i))" by simp
    then show ?thesis by blast
  next
    assume "v \<in> set (run h f' ins)"
    then show ?thesis by (rule Cons.IH)
  qed
qed

lemma facade_call_no_frame:
  "v \<in> set (snd (facade_call h f c)) \<Longrightarrow> inv_slot v = ErrorSlot"
  by (cases c) (auto simp: invoke_quartet_def Let_def split: if_splits option.splits)

lemma host_step_frame:
  assumes "v \<in> set (snd (host_step r f e))" and "inv_slot v = FrameSlot"
  shows "\<exists>fb t pose ey. v = invoke_quartet r FrameSlot
            [VInt fb, VInt t, VPose pose, VViews (view_array ey), VInt (view_count ey)]"
  using assms
  by (cases e) (auto simp: invoke_quartet_def invoke_optional_def split: if_splits list.splits)

lemma step_frame:
  assumes "v \<in> set (snd (step h f i))" and "inv_slot v = FrameSlot"
  shows "\<exists>r fb t pose ey. v = invoke_quartet r FrameSlot
            [VInt fb, VInt t, VPose pose, VViews (view_array ey), VInt (view_count ey)]"
proof (cases i)
  case (Call c)
  with assms facade_call_no_frame [of v h f c] show ?thesis by simp
next
  case (Host e)
  show ?thesis
  proof (cases "registered f")
    case None
    with Host assms show ?thesis by simp
  next
    case (Some r)
    with Host assms have "v \<in> set (snd (host_step r f e))" by simp
    from host_step_frame [OF this assms(2)] show ?thesis by blast
  qed
qed

lemma frame_invocation_shape:
  assumes "v = invoke_quartet r FrameSlot
            [VInt fb, VInt t, VPose pose, VViews (view_array ey), VInt (view_count ey)]"
  shows "well_typed v
     \<and> (\<exists>vs n. arg_of v ''views'' = Some (VViews vs) \<and> arg_of v ''viewCount'' = Some (VInt n)
          \<and> length vs = 2 \<and> 1 \<le> n \<and> n \<le> 2
          \<and> (\<forall>i<2. (vs ! i \<noteq> None) = (int i < n)))"
proof -
  have wt: "well_typed v"
    using assms
    by (cases ey) (simp_all add: well_typed_def invoke_quartet_def slot_type_simps
        webxr_frame_callback_func_def)
  have a1: "arg_of v ''views'' = Some (VViews (view_array ey))"
    and a2: "arg_of v ''viewCount'' = Some (VInt (view_count ey))"
    using assms
    by (simp_all add: arg_of_def invoke_quartet_def slot_type_simps webxr_frame_callback_func_def)
  have "length (view_array ey) = 2 \<and> 1 \<le> view_count ey \<and> view_count ey \<le> 2
     \<and> (\<forall>i<2. (view_array ey ! i \<noteq> None) = (int i < view_count ey))"
    by (cases ey) (auto simp: less_Suc_eq numeral_2_eq_2)
  with wt a1 a2 show ?thesis by blast
qed

lemma quartet_arg_userData:
  "is_quartet s \<Longrightarrow> arg_of (invoke_quartet r s args) ''userData'' = Some (VPtr (userData r))"
  by (auto simp: is_quartet_def arg_of_def invoke_quartet_def slot_type_simps
      webxr_frame_callback_func_def webxr_session_callback_func_def webxr_error_callback_func_def)

lemma facade_call_registered:
  "facade_call h f c = (f', out) \<Longrightarrow> registered f = Some r \<Longrightarrow> registered f' = Some r"
  by (cases c) (auto split: if_splits)

lemma host_step_registered:
  "host_step r f e = (f', out) \<Longrightarrow> registered f' = registered f"
  by (cases e) (auto split: if_splits list.splits)

lemma step_userData_in_force:
  assumes "step h f i = (f', out)"
  shows "userData_in_force f' ins = userData_in_force f (i # ins)"
proof (cases i)
  case (Call c)
  show ?thesis
  proof (cases "registered f")
    case (Some r)
    with assms Call have "registered f' = Some r"
      by (auto dest: facade_call_registered)
    with Some show ?thesis by (simp add: userData_in_force_def)
  next
    case None
    with assms Call show ?thesis
      by (cases c) (auto simp: userData_in_force_def Let_def split: if_splits)
  qed
next
  case (Host e)
  with assms have "registered f' = registered f"
    by (auto split: option.splits dest: host_step_registered)
  with Host show ?thesis by (simp add: userData_in_force_def split: option.splits)
qed

lemma host_step_quartet:
  assumes "v \<in> set (snd (host_step r f e))" and "is_quartet (inv_slot v)"
  shows "\<exists>args. v = invoke_quartet r (inv_slot v) args"
  using assms
  by (cases e) (auto simp: invoke_quartet_def invoke_optional_def is_quartet_def
      split: if_splits list.splits)

lemma facade_call_quartet:
  assumes "v \<in> set (snd (facade_call h f c))"
  shows "\<exists>ud. userData_in_force f (Call c # ins) = Some ud
     \<and> arg_of v ''userData'' = Some (VPtr ud)"
  using assms
  by (cases c) (auto simp: invoke_quartet_def userData_in_force_def Let_def arg_of_def
      slot_type_simps webxr_error_callback_func_def split: if_splits option.splits)

lemma step_quartet_userData:
  assumes "v \<in> set (snd (step h f i))" and "is_quartet (inv_slot v)"
  shows "\<exists>ud. userData_in_force f (i # ins) = Some ud \<and> arg_of v ''userData'' = Some (VPtr ud)"
proof (cases i)
  case (Call c)
  with assms(1) facade_call_quartet [of v h f c ins] show ?thesis by simp
next
  case (Host e)
  show ?thesis
  proof (cases "registered f")
    case None
    with Host assms show ?thesis by simp
  next
    case (Some r)
    with Host assms(1) have "v \<in> set (snd (host_step r f e))" by simp
    from host_step_quartet [OF this assms(2)] obtain args where
      "v = invoke_quartet r (inv_slot v) args" by blast
    with quartet_arg_userData [OF assms(2), of r args] Some show ?thesis
      by (simp add: userData_in_force_def)
  qed
qed

lemma run_quartet_userData:
  assumes "v \<in> set (run h f ins)" and "is_quartet (inv_slot v)"
  shows "\<exists>ud. userData_in_force f ins = Some ud \<and> arg_of v ''userData'' = Some (VPtr ud)"
  using assms(1)
proof (induction ins arbitrary: f)
  case Nil
  then show ?case by simp
next
  case (Cons i ins)
  obtain f' out where s: "step h f i = (f', out)" by (cases "step h f i")
  with Cons.prems have "v \<in> set out \<or> v \<in> set (run h f' ins)" by simp
  then show ?case
  proof
    assume "v \<in> set out"
    with s have "v \<in> set (snd (step h f i))" by simp
    from step_quartet_userData [OF this assms(2)] show ?thesis .
  next
    assume "v \<in> set (run h f' ins)"
    from Cons.IH [OF this] step_userData_in_force [OF s] show ?thesis by simp
  qed
qed

lemma bracketed_append:
  "bracketed b (xs @ ys) = (bracketed b xs \<and> bracketed (open_after b xs) ys)"
  by (induction xs arbitrary: b) auto

lemma open_after_last_lifecycle:
  "open_after b xs =
     (case last_lifecycle xs of Some s \<Rightarrow> s = SessionStartSlot | None \<Rightarrow> b)"
  by (induction xs arbitrary: b) (auto split: option.splits)

lemma facade_call_bracketed:
  assumes "facade_call h f c = (f', out)" and "registered_before_use f"
  shows "registered_before_use f' \<and> bracketed (in_session f) out
     \<and> open_after (in_session f) out = in_session f'"
  using assms
  by (cases c) (auto simp: registered_before_use_def in_session_def invoke_quartet_def Let_def
      split: if_splits option.splits)

lemma host_step_bracketed:
  assumes "host_step r f e = (f', out)" and "registered f = Some r"
  shows "registered f' = Some r \<and> bracketed (in_session f) out
     \<and> open_after (in_session f) out = in_session f'"
  using assms
  by (cases e) (auto simp: in_session_def invoke_quartet_def invoke_optional_def
      split: if_splits list.splits)

lemma step_bracketed:
  assumes "step h f i = (f', out)" and "registered_before_use f"
  shows "registered_before_use f' \<and> bracketed (in_session f) out
     \<and> open_after (in_session f) out = in_session f'"
proof (cases i)
  case (Call c)
  with assms facade_call_bracketed [of h f c f' out] show ?thesis by simp
next
  case (Host e)
  show ?thesis
  proof (cases "registered f")
    case None
    with Host assms show ?thesis by auto
  next
    case (Some r)
    with Host assms(1) have "host_step r f e = (f', out)" by simp
    from host_step_bracketed [OF this Some] show ?thesis
      by (simp add: registered_before_use_def)
  qed
qed

lemma run_bracketed:
  "registered_before_use f \<Longrightarrow> bracketed (in_session f) (run h f ins)"
proof (induction ins arbitrary: f)
  case Nil
  then show ?case by simp
next
  case (Cons i ins)
  obtain f' out where s: "step h f i = (f', out)" by (cases "step h f i")
  from step_bracketed [OF s Cons.prems] Cons.IH [of f'] s show ?case
    by (simp add: bracketed_append)
qed

lemma facade0_bracketed: "bracketed False (run h facade0 ins)"
proof -
  have "registered_before_use facade0" "in_session facade0 = False"
    by (simp_all add: registered_before_use_def in_session_def facade0_def)
  with run_bracketed [of facade0 h ins] show ?thesis by simp
qed

lemma facade_call_well_typed:
  "v \<in> set (snd (facade_call h f c)) \<Longrightarrow> well_typed v"
  by (cases c) (auto simp: invoke_quartet_def Let_def well_typed_def slot_type_simps
      webxr_error_callback_func_def split: if_splits option.splits)

lemma length_view_array: "length (view_array ey) = 2"
  by (cases ey) simp_all

lemma host_step_well_typed:
  "v \<in> set (snd (host_step r f e)) \<Longrightarrow> well_typed v"
  by (cases e) (auto simp: invoke_quartet_def invoke_optional_def well_typed_def slot_type_simps
      length_view_array webxr_error_callback_func_def webxr_frame_callback_func_def
      webxr_session_callback_func_def webxr_session_supported_callback_func_def
      webxr_input_callback_func_def split: if_splits list.splits)

lemma step_well_typed:
  "v \<in> set (snd (step h f i)) \<Longrightarrow> well_typed v"
proof (cases i)
  case (Call c)
  assume "v \<in> set (snd (step h f i))"
  with Call show ?thesis by (simp add: facade_call_well_typed)
next
  case (Host e)
  assume "v \<in> set (snd (step h f i))"
  with Host show ?thesis
    by (cases "registered f") (simp_all add: host_step_well_typed)
qed

lemma run_well_typed:
  assumes "v \<in> set (run h f ins)"
  shows "well_typed v"
proof -
  from run_invocation_from_step [OF assms] obtain f' i where
    "v \<in> set (snd (step h f' i))" by blast
  then show ?thesis by (rule step_well_typed)
qed

subsection \<open>The views of a frame\<close>

text \<open>
  C5, as claimed, fails: the frame callback type does not fix the storage of views to two
  entries. The declarator \<^verbatim>\<open>WebXRView views[2]\<close> stands in a parameter list, so the
  parameter is a \<^verbatim>\<open>WebXRView*\<close>: an invocation that passes three views and viewCount 3, or
  one view and viewCount 1, fits the type as well.
\<close>

theorem frame_callback_type_does_not_bound_views:
  "param_adjusted_type webxr_frame_callback_func ''views'' = Some (CPtr (CNamed ''WebXRView''))
   \<and> well_typed (Invocation FrameSlot 1
        [VPtr 7, VInt 5, VInt 100, VPose example_pose,
         VViews [Some example_view, Some example_view, Some example_view], VInt 3])
   \<and> arg_of (Invocation FrameSlot 1
        [VPtr 7, VInt 5, VInt 100, VPose example_pose,
         VViews [Some example_view, Some example_view, Some example_view], VInt 3]) ''views''
       = Some (VViews [Some example_view, Some example_view, Some example_view])
   \<and> length [Some example_view, Some example_view, Some example_view] \<noteq> 2
   \<and> well_typed (Invocation FrameSlot 1
        [VPtr 7, VInt 5, VInt 100, VPose example_pose, VViews [Some example_view], VInt 1])
   \<and> arg_of (Invocation FrameSlot 1
        [VPtr 7, VInt 5, VInt 100, VPose example_pose, VViews [Some example_view], VInt 1])
        ''views''
       = Some (VViews [Some example_view])
   \<and> length [Some example_view] \<noteq> 2"
  by (simp add: param_adjusted_type_def param_type_def well_typed_def arg_of_def
      slot_type_simps webxr_frame_callback_func_def)

text \<open>
  C5, amended. The frame callback type declares views with the bound 2, which as a
  parameter is a \<^verbatim>\<open>WebXRView*\<close> and bounds nothing by its type, and has a viewCount
  parameter; every invocation of the frame callback that the facade makes fits the type,
  passes storage of two entries and a viewCount between 1 and 2, and has written exactly
  the entries below viewCount, leaving the others unwritten.
\<close>

theorem frame_callback_view_count:
  assumes "v \<in> set (run h facade0 ins)" and "inv_slot v = FrameSlot"
  shows "param_type webxr_frame_callback_func ''views'' = Some (CArray (CNamed ''WebXRView'') 2)
     \<and> param_adjusted_type webxr_frame_callback_func ''views'' = Some (CPtr (CNamed ''WebXRView''))
     \<and> param_type webxr_frame_callback_func ''viewCount'' = Some CInt
     \<and> well_typed v
     \<and> (\<exists>vs n. arg_of v ''views'' = Some (VViews vs) \<and> arg_of v ''viewCount'' = Some (VInt n)
          \<and> length vs = 2 \<and> 1 \<le> n \<and> n \<le> 2
          \<and> (\<forall>i<2. (vs ! i \<noteq> None) = (int i < n)))"
proof -
  from run_invocation_from_step [OF assms(1)] obtain f' i where
    "v \<in> set (snd (step h f' i))" by blast
  from step_frame [OF this assms(2)] obtain r fb t pose ey where
    "v = invoke_quartet r FrameSlot
           [VInt fb, VInt t, VPose pose, VViews (view_array ey), VInt (view_count ey)]"
    by blast
  from frame_invocation_shape [OF this] show ?thesis
    by (simp add: param_adjusted_type_def param_type_def webxr_frame_callback_func_def)
qed

theorem frame_callback_view_count_witness:
  "Invocation FrameSlot 1
       [VPtr 7, VInt 5, VInt 100, VPose example_pose, VViews [Some example_view, None], VInt 1]
     \<in> set (run capable_host facade0
         [Call (Init 1 2 3 4 7),
          Call (RequestSession WEBXR_SESSION_MODE_INLINE WEBXR_SESSION_FEATURE_LOCAL
                  WEBXR_SESSION_FEATURE_LOCAL),
          Host SessionGranted,
          Host (FrameGranted 5 100 example_pose (Mono example_view))])
   \<and> well_typed (Invocation FrameSlot 1
       [VPtr 7, VInt 5, VInt 100, VPose example_pose, VViews [Some example_view, None], VInt 1])
   \<and> arg_of (Invocation FrameSlot 1
       [VPtr 7, VInt 5, VInt 100, VPose example_pose, VViews [Some example_view, None], VInt 1])
       ''views'' = Some (VViews [Some example_view, None])
   \<and> arg_of (Invocation FrameSlot 1
       [VPtr 7, VInt 5, VInt 100, VPose example_pose, VViews [Some example_view, None], VInt 1])
       ''viewCount'' = Some (VInt 1)"
proof -
  let ?v = "Invocation FrameSlot 1
       [VPtr 7, VInt 5, VInt 100, VPose example_pose, VViews [Some example_view, None], VInt 1]"
  let ?ins = "[Call (Init 1 2 3 4 7),
          Call (RequestSession WEBXR_SESSION_MODE_INLINE WEBXR_SESSION_FEATURE_LOCAL
                  WEBXR_SESSION_FEATURE_LOCAL),
          Host SessionGranted,
          Host (FrameGranted 5 100 example_pose (Mono example_view))]"
  have mem: "?v \<in> set (run capable_host facade0 ?ins)"
    by (simp add: facade0_def capable_host_def in_session_def invoke_quartet_def)
  have slot: "inv_slot ?v = FrameSlot" by simp
  from frame_callback_view_count [OF mem slot] mem show ?thesis
    by (simp add: arg_of_def slot_type_simps webxr_frame_callback_func_def)
qed

subsection \<open>The userData of init\<close>

text \<open>
  C6, as claimed, fails: the userData of init is not passed to every callback. On a
  capable host, after init with userData 7, a blur handler registered with userData 8 and
  a support probe with handler 9, the run calls the session-support handler with two
  integers and no pointer at all (its type has no userData parameter), and the blur
  handler with 8.
\<close>

theorem init_userData_not_passed_to_every_callback:
  "first_init_userData
       [Call (Init 1 2 3 4 7),
        Call (SetSessionBlurCallback 5 8),
        Call (IsSessionSupported WEBXR_SESSION_MODE_IMMERSIVE_VR 9),
        Host (SupportAnswered True),
        Call (RequestSession WEBXR_SESSION_MODE_IMMERSIVE_VR WEBXR_SESSION_FEATURE_LOCAL_FLOOR
                WEBXR_SESSION_FEATURE_HIT_TEST),
        Host SessionGranted,
        Host VisibilityBlurred] = Some 7
   \<and> run capable_host facade0
       [Call (Init 1 2 3 4 7),
        Call (SetSessionBlurCallback 5 8),
        Call (IsSessionSupported WEBXR_SESSION_MODE_IMMERSIVE_VR 9),
        Host (SupportAnswered True),
        Call (RequestSession WEBXR_SESSION_MODE_IMMERSIVE_VR WEBXR_SESSION_FEATURE_LOCAL_FLOOR
                WEBXR_SESSION_FEATURE_HIT_TEST),
        Host SessionGranted,
        Host VisibilityBlurred]
     = [Invocation SupportedSlot 9 [VInt 1, VInt 1],
        Invocation SessionStartSlot 2 [VPtr 7, VInt 1],
        Invocation BlurSlot 5 [VPtr 8, VInt 1]]
   \<and> well_typed (Invocation SupportedSlot 9 [VInt 1, VInt 1])
   \<and> VPtr 7 \<notin> set (inv_args (Invocation SupportedSlot 9 [VInt 1, VInt 1]))
   \<and> VPtr 7 \<notin> set (inv_args (Invocation BlurSlot 5 [VPtr 8, VInt 1]))
   \<and> \<not> takes_userData webxr_session_supported_callback_func"
  by (simp add: facade0_def capable_host_def in_session_def invoke_quartet_def
      invoke_optional_def NULL_def well_typed_def slot_type_simps takes_userData_def
      webxr_session_supported_callback_func_def)

text \<open>
  C6, amended. \<^verbatim>\<open>webxr_init\<close> takes exactly the four callbacks (frame, session start,
  session end, error) and one \<^verbatim>\<open>void*\<close> userData; every invocation of one of these four
  passes, as its userData argument, the userData given to init; an invocation of the
  session-support callback passes no userData and no pointer.
\<close>

theorem init_userData_reaches_quartet:
  "map (\<lambda>p. (p_name p, p_type p)) (sig_params webxr_init) =
     [(''frameCallback'', CNamed ''webxr_frame_callback_func''),
      (''sessionStartCallback'', CNamed ''webxr_session_callback_func''),
      (''sessionEndCallback'', CNamed ''webxr_session_callback_func''),
      (''errorCallback'', CNamed ''webxr_error_callback_func''),
      (''userData'', CPtr CVoid)]
   \<and> (v \<in> set (run h facade0 ins) \<and> is_quartet (inv_slot v) \<longrightarrow>
        (\<exists>ud. first_init_userData ins = Some ud \<and> arg_of v ''userData'' = Some (VPtr ud)))
   \<and> (v \<in> set (run h facade0 ins) \<and> inv_slot v = SupportedSlot \<longrightarrow>
        arg_of v ''userData'' = None \<and> VPtr a \<notin> set (inv_args v))"
proof -
  have "\<exists>ud. first_init_userData ins = Some ud \<and> arg_of v ''userData'' = Some (VPtr ud)"
    if "v \<in> set (run h facade0 ins)" "is_quartet (inv_slot v)"
    using run_quartet_userData [OF that]
    by (simp add: userData_in_force_def facade0_def)
  moreover have "arg_of v ''userData'' = None \<and> VPtr a \<notin> set (inv_args v)"
    if "v \<in> set (run h facade0 ins)" "inv_slot v = SupportedSlot"
  proof -
    from that(1) have "well_typed v" by (rule run_well_typed)
    from supported_invocation_args [OF this that(2)] obtain x y where
      "inv_args v = [VInt x, VInt y]" by blast
    with that(2) show ?thesis
      by (simp add: arg_of_def slot_type_simps webxr_session_supported_callback_func_def)
  qed
  ultimately show ?thesis
    by (simp add: webxr_init_def)
qed

theorem init_userData_reaches_quartet_witness:
  "Invocation SessionStartSlot 2 [VPtr 7, VInt 1]
     \<in> set (run capable_host facade0
         [Call (Init 1 2 3 4 7),
          Call (RequestSession WEBXR_SESSION_MODE_IMMERSIVE_VR WEBXR_SESSION_FEATURE_LOCAL_FLOOR
                  WEBXR_SESSION_FEATURE_HIT_TEST),
          Host SessionGranted])
   \<and> is_quartet (inv_slot (Invocation SessionStartSlot 2 [VPtr 7, VInt 1]))
   \<and> first_init_userData
         [Call (Init 1 2 3 4 7),
          Call (RequestSession WEBXR_SESSION_MODE_IMMERSIVE_VR WEBXR_SESSION_FEATURE_LOCAL_FLOOR
                  WEBXR_SESSION_FEATURE_HIT_TEST),
          Host SessionGranted] = Some 7
   \<and> arg_of (Invocation SessionStartSlot 2 [VPtr 7, VInt 1]) ''userData'' = Some (VPtr 7)
   \<and> Invocation SupportedSlot 9 [VInt 1, VInt 1]
     \<in> set (run capable_host facade0
         [Call (Init 1 2 3 4 7),
          Call (IsSessionSupported WEBXR_SESSION_MODE_IMMERSIVE_VR 9),
          Host (SupportAnswered True)])
   \<and> arg_of (Invocation SupportedSlot 9 [VInt 1, VInt 1]) ''userData'' = None"
proof -
  let ?v = "Invocation SessionStartSlot 2 [VPtr 7, VInt 1]"
  let ?ins = "[Call (Init 1 2 3 4 7),
          Call (RequestSession WEBXR_SESSION_MODE_IMMERSIVE_VR WEBXR_SESSION_FEATURE_LOCAL_FLOOR
                  WEBXR_SESSION_FEATURE_HIT_TEST),
          Host SessionGranted]"
  let ?w = "Invocation SupportedSlot 9 [VInt 1, VInt 1]"
  let ?jns = "[Call (Init 1 2 3 4 7),
          Call (IsSessionSupported WEBXR_SESSION_MODE_IMMERSIVE_VR 9),
          Host (SupportAnswered True)]"
  have mem: "?v \<in> set (run capable_host facade0 ?ins)"
    by (simp add: facade0_def capable_host_def invoke_quartet_def)
  have q: "is_quartet (inv_slot ?v)" by (simp add: is_quartet_def)
  have mem': "?w \<in> set (run capable_host facade0 ?jns)"
    by (simp add: facade0_def capable_host_def NULL_def)
  from init_userData_reaches_quartet [of ?v capable_host ?ins 7]
    init_userData_reaches_quartet [of ?w capable_host ?jns 7] mem q mem'
  show ?thesis by simp
qed

subsection \<open>Frames and the session callbacks\<close>

text \<open>
  C8. In the invocations of any run, the most recent session-start or session-end
  invocation before a frame invocation exists and is a session-start: so the session-start
  callback comes before the first frame of a session, no frame follows a session-end
  until the next session-start, and no frame comes outside such a bracket. Likewise every
  session-end closes a session that a session-start opened, and sessions do not nest.
\<close>

theorem frames_inside_session_brackets:
  assumes "run h facade0 ins = pre @ v # post"
  shows "(inv_slot v = FrameSlot \<longrightarrow> last_lifecycle pre = Some SessionStartSlot)
     \<and> (inv_slot v = SessionEndSlot \<longrightarrow> last_lifecycle pre = Some SessionStartSlot)
     \<and> (inv_slot v = SessionStartSlot \<longrightarrow> last_lifecycle pre \<noteq> Some SessionStartSlot)"
proof -
  from facade0_bracketed [of h ins] assms have "bracketed False (pre @ v # post)" by simp
  then have "bracketed (open_after False pre) (v # post)"
    by (simp add: bracketed_append)
  then show ?thesis
    by (auto simp: open_after_last_lifecycle split: option.splits if_splits)
qed

theorem frames_inside_session_brackets_witness:
  "run capable_host facade0
       [Call (Init 1 2 3 4 7),
        Host (FrameGranted 5 90 example_pose (Stereo example_view example_view)),
        Call (RequestSession WEBXR_SESSION_MODE_IMMERSIVE_VR WEBXR_SESSION_FEATURE_LOCAL_FLOOR
                WEBXR_SESSION_FEATURE_HIT_TEST),
        Host SessionGranted,
        Host (FrameGranted 5 100 example_pose (Stereo example_view example_view)),
        Call RequestExit,
        Host SessionExited,
        Host (FrameGranted 5 110 example_pose (Stereo example_view example_view))]
     = [Invocation SessionStartSlot 2 [VPtr 7, VInt 1]]
       @ Invocation FrameSlot 1
           [VPtr 7, VInt 5, VInt 100, VPose example_pose,
            VViews [Some example_view, Some example_view], VInt 2]
       # [Invocation SessionEndSlot 3 [VPtr 7, VInt 1]]
   \<and> last_lifecycle [Invocation SessionStartSlot 2 [VPtr 7, VInt 1]] = Some SessionStartSlot"
proof -
  let ?ins = "[Call (Init 1 2 3 4 7),
        Host (FrameGranted 5 90 example_pose (Stereo example_view example_view)),
        Call (RequestSession WEBXR_SESSION_MODE_IMMERSIVE_VR WEBXR_SESSION_FEATURE_LOCAL_FLOOR
                WEBXR_SESSION_FEATURE_HIT_TEST),
        Host SessionGranted,
        Host (FrameGranted 5 100 example_pose (Stereo example_view example_view)),
        Call RequestExit,
        Host SessionExited,
        Host (FrameGranted 5 110 example_pose (Stereo example_view example_view))]"
  let ?pre = "[Invocation SessionStartSlot 2 [VPtr 7, VInt 1]]"
  let ?v = "Invocation FrameSlot 1
           [VPtr 7, VInt 5, VInt 100, VPose example_pose,
            VViews [Some example_view, Some example_view], VInt 2]"
  let ?post = "[Invocation SessionEndSlot 3 [VPtr 7, VInt 1]]"
  have r: "run capable_host facade0 ?ins = ?pre @ ?v # ?post"
    by (simp add: facade0_def capable_host_def in_session_def invoke_quartet_def)
  from frames_inside_session_brackets [OF r] r show ?thesis by simp
qed

end
